theory Spec2Isabelle
  imports Main "HOL-Library.Word" "HOL-Library.Log_Nat"
begin

section \<open>The lottery component: data model\<close>

text \<open>
  The repository is one React component, \<open>LotteryApp\<close>, in two variants that differ in
  a single line of \<open>handleDraw\<close>: \<open>src/component/Dashboard.tsx\<close> and \<open>part_000\<close>.
  Its state variables are the fields of \<open>State\<close>; its event handlers are state
  transformers. What the component reads from the browser (the clock \<open>Date.now()\<close>,
  \<open>Math.random()\<close>, the text of \<open>new Date().toLocaleString()\<close>) is an explicit argument
  of the handler that reads it. An event is handled as a whole and against the state of
  the latest render: React renders the component again before the next event.

  A JavaScript string is a sequence of UTF-16 code units.
\<close>

type_synonym jsstring = "16 word list"

definition js :: "string \<Rightarrow> jsstring" where
  \<comment> \<open>an ASCII literal as a JavaScript string\<close>
  "js s = map of_char s"

text \<open>\<open>type Player = { name: string; number: string; id: number }\<close>. The field \<open>id\<close> is
  called \<open>ident\<close> here, \<open>id\<close> being the identity function of HOL.\<close>

record Player =
  name :: jsstring
  number :: jsstring
  ident :: int

text \<open>\<open>type Winner = Player & { date: string }\<close>\<close>

record Winner = Player +
  date :: jsstring

text \<open>The \<open>useState\<close> variables of the component. The two text inputs \<open>name\<close> and
  \<open>number\<close> are \<open>name_input\<close> and \<open>number_input\<close>, apart from the fields of a player.\<close>

record State =
  players :: "Player list"
  name_input :: jsstring
  number_input :: jsstring
  winner :: "Player option"
  isDrawing :: bool
  winnersHistory :: "Winner list"
  showConfetti :: bool
  showWinnerPopup :: bool

definition initialState :: State where
  "initialState = \<lparr>players = [], name_input = [], number_input = [], winner = None,
     isDrawing = False, winnersHistory = [], showConfetti = False, showWinnerPopup = False\<rparr>"

subsection \<open>\<open>String.prototype.trim\<close>\<close>

text \<open>\<open>trim\<close> strips the code units of ECMAScript's WhiteSpace and LineTerminator
  productions from both ends.\<close>

definition isWhiteSpace :: "16 word \<Rightarrow> bool" where
  "isWhiteSpace c =
     (c \<in> set [0x09, 0x0A, 0x0B, 0x0C, 0x0D, 0x20, 0xA0, 0x1680, 0x2028, 0x2029,
               0x202F, 0x205F, 0x3000, 0xFEFF]
      \<or> (0x2000 \<le> c \<and> c \<le> 0x200A))"

definition trim :: "jsstring \<Rightarrow> jsstring" where
  "trim s = rev (dropWhile isWhiteSpace (rev (dropWhile isWhiteSpace s)))"

subsection \<open>The handlers of the entrant pool and of the history\<close>

text \<open>
  \<^verbatim>\<open>
  const handleRegister = () => {
    if (!name.trim() || !number.trim()) return;
    const newPlayer = { name: name.trim(), number: number.trim(), id: Date.now() };
    setPlayers([...players, newPlayer]);
    setName("");
    setNumber("");
  };
  \<close>
  A string is falsy exactly when it is empty. \<open>now\<close> is the value of \<open>Date.now()\<close>.
\<close>

definition handleRegister :: "int \<Rightarrow> State \<Rightarrow> State" where
  "handleRegister now st =
     (if trim (name_input st) = [] \<or> trim (number_input st) = [] then st
      else st\<lparr>players := players st @
                  [\<lparr>name = trim (name_input st), number = trim (number_input st), ident = now\<rparr>],
              name_input := [], number_input := []\<rparr>)"

text \<open>\<open>if (e.key === "Enter") handleRegister();\<close>\<close>

definition handleKeyPress :: "jsstring \<Rightarrow> int \<Rightarrow> State \<Rightarrow> State" where
  "handleKeyPress key now st = (if key = js ''Enter'' then handleRegister now st else st)"

text \<open>\<open>setPlayers(players.filter((player) => player.id !== id));\<close>\<close>

definition removePlayer :: "int \<Rightarrow> State \<Rightarrow> State" where
  "removePlayer i st = st\<lparr>players := filter (\<lambda>player. ident player \<noteq> i) (players st)\<rparr>"

definition clearAllPlayers :: "State \<Rightarrow> State" where
  "clearAllPlayers st = st\<lparr>players := []\<rparr>"

definition clearHistory :: "State \<Rightarrow> State" where
  "clearHistory st = st\<lparr>winnersHistory := []\<rparr>"

definition closeWinnerPopup :: "State \<Rightarrow> State" where
  "closeWinnerPopup st = st\<lparr>showWinnerPopup := False\<rparr>"

text \<open>A registration from scratch: the two inputs are typed (\<open>setName\<close>, \<open>setNumber\<close>),
  then the register button is pressed.\<close>

definition register :: "jsstring \<Rightarrow> jsstring \<Rightarrow> int \<Rightarrow> State \<Rightarrow> State" where
  "register nm num now st = handleRegister now (st\<lparr>name_input := nm, number_input := num\<rparr>)"

section \<open>The draw\<close>

subsection \<open>\<open>Math.random()\<close> and the selection index\<close>

text \<open>
  \<open>Math.random()\<close> returns a Number, an IEEE 754 binary64 value, that is at least 0 and
  less than 1. Every such value is \<open>mant / 2 ^ expo\<close> for naturals \<open>mant < 2 ^ 53\<close> and
  \<open>expo \<le> 1074\<close> with \<open>mant < 2 ^ expo\<close>.
\<close>

record Random =
  mant :: nat
  expo :: nat

definition isRandom :: "Random \<Rightarrow> bool" where
  "isRandom r = (mant r < 2 ^ 53 \<and> mant r < 2 ^ expo r \<and> expo r \<le> 1074)"

text \<open>\<open>M / 2 ^ s\<close> rounded to the nearest integer, a tie to the even one: the rounding of
  binary64 arithmetic.\<close>

definition roundTiesToEven :: "nat \<Rightarrow> nat \<Rightarrow> nat" where
  "roundTiesToEven M s =
     (let q = M div 2 ^ s; rest = M mod 2 ^ s
      in if 2 * rest < 2 ^ s then q
         else if 2 ^ s < 2 * rest then q + 1
         else if even q then q else q + 1)"

text \<open>
  \<open>Math.floor(Math.random() * players.length)\<close>. The length \<open>n\<close> of an array is below
  \<open>2 ^ 32\<close>, so it is a binary64 value as it is. The exact product is
  \<open>mant * n / 2 ^ expo\<close>; the multiplication returns it rounded to 53 significant bits:
  unchanged when \<open>mant * n < 2 ^ 53\<close>, and otherwise with the lowest
  \<open>s = bitlength (mant * n) - 53\<close> bits rounded away. \<open>Math.floor\<close> of the non-negative
  result is the integer division by \<open>2 ^ expo\<close>.
\<close>

definition randomIndex :: "Random \<Rightarrow> nat \<Rightarrow> nat" where
  "randomIndex r n =
     (let M = mant r * n
      in if M < 2 ^ 53 then M div 2 ^ expo r
         else let s = floorlog 2 M - 53
              in (roundTiesToEven M s * 2 ^ s) div 2 ^ expo r)"

text \<open>\<open>xs[i]\<close>: reading an array out of range gives \<open>undefined\<close>, here \<open>None\<close>.\<close>

definition element_at :: "'a list \<Rightarrow> nat \<Rightarrow> 'a option" where
  "element_at xs i = (if i < length xs then Some (xs ! i) else None)"

subsection \<open>The component with its timers\<close>

text \<open>
  \<open>handleDraw\<close> starts a \<open>setInterval\<close> timer whose callback closes over the variables
  of the render in which the draw button was pressed: the array \<open>players\<close> of that
  render, and \<open>startTime\<close>. A pending timer is a \<open>Spin\<close> holding the two. \<open>World\<close> is the
  state of the component together with its pending timers: the spin intervals, and the
  number of pending \<open>setTimeout(() => setShowConfetti(false), 7000)\<close> timers.
\<close>

record Spin =
  closure_players :: "Player list"
  startTime :: int

record World =
  ui :: State
  intervals :: "Spin list"
  confettiTimeouts :: nat

text \<open>The two variants of the repository.\<close>

datatype variant = Dashboard_tsx | part_000

definition spinDuration :: int where
  "spinDuration = 4000"

text \<open>
  \<^verbatim>\<open>
  const handleDraw = () => {
    if (players.length === 0) return;
    setIsDrawing(true);
    setWinner(null);
    setShowConfetti(false);
    setShowWinnerPopup(false);
    const spinDuration = 4000;
    const startTime = Date.now();
    const spinInterval = setInterval(() => { ... }, 100);
  };
  \<close>
\<close>

definition handleDraw :: "int \<Rightarrow> World \<Rightarrow> World" where
  "handleDraw now w =
     (if players (ui w) = [] then w
      else w\<lparr>ui := (ui w)\<lparr>isDrawing := True, winner := None,
                          showConfetti := False, showWinnerPopup := False\<rparr>,
             intervals := intervals w @
                          [\<lparr>closure_players = players (ui w), startTime = now\<rparr>]\<rparr>)"

text \<open>The draw button: \<open>onClick={handleDraw}\<close>,
  \<open>disabled={players.length === 0 || isDrawing}\<close>. A disabled button receives no click.\<close>

definition drawButton :: "int \<Rightarrow> World \<Rightarrow> World" where
  "drawButton now w =
     (if players (ui w) = [] \<or> isDrawing (ui w) then w else handleDraw now w)"

text \<open>
  The callback of the interval, run every 100 ms for the pending timer number \<open>i\<close>:
  \<^verbatim>\<open>
      const elapsed = Date.now() - startTime;
      if (elapsed >= spinDuration) {
        clearInterval(spinInterval);
        const randomIndex = Math.floor(Math.random() * players.length);
        const newWinner = players[randomIndex];
        setWinner(newWinner);
        setIsDrawing(false);
        setShowConfetti(true);
        setShowWinnerPopup(true);
        setWinnersHistory((prev) => [
          { ...newWinner, date: new Date().toLocaleString() },
          ...prev,
        ]);
        setPlayers([]);                                                  // Dashboard.tsx
        setPlayers((prev) => prev.filter((p) => p.id !== newWinner.id)); // part_000
        setTimeout(() => setShowConfetti(false), 7000);
      }
  \<close>
  Here \<open>players\<close> is the array of the closure, while the two \<open>prev\<close> are the current
  state. \<open>now\<close>, \<open>r\<close> and \<open>d\<close> are what \<open>Date.now()\<close>, \<open>Math.random()\<close> and
  \<open>new Date().toLocaleString()\<close> return. Were \<open>newWinner\<close> undefined it would be no
  \<open>Player\<close>; this outcome is the error \<open>UndefinedWinner\<close>. The other error is the
  exception that \<open>JSON.parse\<close> throws.
\<close>

datatype error = UndefinedWinner | SyntaxError

definition completeDraw :: "variant \<Rightarrow> Player \<Rightarrow> jsstring \<Rightarrow> State \<Rightarrow> State" where
  "completeDraw v newWinner d st =
     st\<lparr>winner := Some newWinner, isDrawing := False,
        showConfetti := True, showWinnerPopup := True,
        winnersHistory :=
          \<lparr>name = name newWinner, number = number newWinner, ident = ident newWinner,
           date = d\<rparr> # winnersHistory st,
        players := (case v of
                      Dashboard_tsx \<Rightarrow> []
                    | part_000 \<Rightarrow> filter (\<lambda>p. ident p \<noteq> ident newWinner) (players st))\<rparr>"

definition spinTick :: "variant \<Rightarrow> nat \<Rightarrow> int \<Rightarrow> Random \<Rightarrow> jsstring \<Rightarrow> World \<Rightarrow> error + World" where
  "spinTick v i now r d w =
     (if length (intervals w) \<le> i then Inr w
      else let sp = intervals w ! i; elapsed = now - startTime sp
           in if spinDuration \<le> elapsed
              then (case element_at (closure_players sp)
                                    (randomIndex r (length (closure_players sp))) of
                      None \<Rightarrow> Inl UndefinedWinner
                    | Some newWinner \<Rightarrow>
                        Inr (w\<lparr>ui := completeDraw v newWinner d (ui w),
                               intervals := take i (intervals w) @ drop (Suc i) (intervals w),
                               confettiTimeouts := Suc (confettiTimeouts w)\<rparr>))
              else Inr w)"

definition confettiTimeout :: "World \<Rightarrow> World" where
  "confettiTimeout w =
     (if confettiTimeouts w = 0 then w
      else w\<lparr>ui := (ui w)\<lparr>showConfetti := False\<rparr>,
             confettiTimeouts := confettiTimeouts w - 1\<rparr>)"

subsection \<open>Events\<close>

text \<open>
  Everything that can happen to the mounted component: the user's input events, each
  with the handler the markup binds to it, and the two kinds of timer callback. The
  popup with its buttons is rendered only under \<open>showWinnerPopup && winner\<close>.
\<close>

datatype event =
    SetName jsstring
  | SetNumber jsstring
  | RegisterClick int
  | KeyDown jsstring int
  | RemoveClick int
  | ClearAllClick
  | ClearHistoryClick
  | DrawClick int
  | ClosePopupClick
  | CelebrateClick
  | IntervalTick nat int Random jsstring
  | ConfettiTimeout

definition onUi :: "(State \<Rightarrow> State) \<Rightarrow> World \<Rightarrow> World" where
  "onUi f w = w\<lparr>ui := f (ui w)\<rparr>"

definition popupShown :: "State \<Rightarrow> bool" where
  "popupShown st = (showWinnerPopup st \<and> winner st \<noteq> None)"

fun apply_event :: "variant \<Rightarrow> event \<Rightarrow> World \<Rightarrow> error + World" where
  "apply_event v (SetName s) w = Inr (onUi (\<lambda>st. st\<lparr>name_input := s\<rparr>) w)"
| "apply_event v (SetNumber s) w = Inr (onUi (\<lambda>st. st\<lparr>number_input := s\<rparr>) w)"
| "apply_event v (RegisterClick now) w = Inr (onUi (handleRegister now) w)"
| "apply_event v (KeyDown key now) w = Inr (onUi (handleKeyPress key now) w)"
| "apply_event v (RemoveClick i) w = Inr (onUi (removePlayer i) w)"
| "apply_event v ClearAllClick w = Inr (onUi clearAllPlayers w)"
| "apply_event v ClearHistoryClick w = Inr (onUi clearHistory w)"
| "apply_event v (DrawClick now) w = Inr (drawButton now w)"
| "apply_event v ClosePopupClick w =
     Inr (if popupShown (ui w) then onUi closeWinnerPopup w else w)"
| "apply_event v CelebrateClick w =
     Inr (if popupShown (ui w) then onUi (\<lambda>st. st\<lparr>showConfetti := True\<rparr>) w else w)"
| "apply_event v (IntervalTick i now r d) w = spinTick v i now r d w"
| "apply_event v ConfettiTimeout w = Inr (confettiTimeout w)"

fun run :: "variant \<Rightarrow> event list \<Rightarrow> World \<Rightarrow> error + World" where
  "run v [] w = Inr w"
| "run v (e # es) w = (case apply_event v e w of Inl err \<Rightarrow> Inl err | Inr w' \<Rightarrow> run v es w')"

text \<open>An event that does not complete a draw started at \<open>t0\<close>: any event but a tick
  of an interval at which the spin duration has elapsed since \<open>t0\<close>.\<close>

fun beforeDeadline :: "int \<Rightarrow> event \<Rightarrow> bool" where
  "beforeDeadline t0 (IntervalTick i now r d) = (now - t0 < spinDuration)"
| "beforeDeadline t0 e = True"

section \<open>Durable storage\<close>

subsection \<open>\<open>JSON.parse\<close>\<close>

text \<open>
  The value of a JSON text (ECMA-404). A number keeps its numeral; the members of an
  object are in the order of the text.
\<close>

datatype json =
    JNull
  | JBool bool
  | JNumber jsstring
  | JString jsstring
  | JArray "json list"
  | JObject "(jsstring \<times> json) list"

text \<open>The tokens of a JSON text. A string, a number and the literals \<open>true\<close>, \<open>false\<close>,
  \<open>null\<close> are scalar values.\<close>

datatype token = TLBrace | TRBrace | TLBracket | TRBracket | TColon | TComma | TScalar json

text \<open>The grammar of a JSON number,
  \<open>-? (0 | [1-9][0-9]*) (. [0-9]+)? ([eE] [+-]? [0-9]+)?\<close>, as an automaton.\<close>

datatype numstate = NMinus | NZero | NInt | NDot | NFrac | NExp | NExpSign | NExpDigits

definition isDigit :: "16 word \<Rightarrow> bool" where
  "isDigit c = (0x30 \<le> c \<and> c \<le> 0x39)"

definition isExponentMark :: "16 word \<Rightarrow> bool" where
  "isExponentMark c = (c = 0x65 \<or> c = 0x45)"

fun numStep :: "numstate \<Rightarrow> 16 word \<Rightarrow> numstate option" where
  "numStep NMinus c = (if c = 0x30 then Some NZero else if isDigit c then Some NInt else None)"
| "numStep NZero c =
     (if c = 0x2E then Some NDot else if isExponentMark c then Some NExp else None)"
| "numStep NInt c =
     (if isDigit c then Some NInt else if c = 0x2E then Some NDot
      else if isExponentMark c then Some NExp else None)"
| "numStep NDot c = (if isDigit c then Some NFrac else None)"
| "numStep NFrac c =
     (if isDigit c then Some NFrac else if isExponentMark c then Some NExp else None)"
| "numStep NExp c =
     (if c = 0x2B \<or> c = 0x2D then Some NExpSign else if isDigit c then Some NExpDigits else None)"
| "numStep NExpSign c = (if isDigit c then Some NExpDigits else None)"
| "numStep NExpDigits c = (if isDigit c then Some NExpDigits else None)"

fun numAccepting :: "numstate \<Rightarrow> bool" where
  "numAccepting NZero = True"
| "numAccepting NInt = True"
| "numAccepting NFrac = True"
| "numAccepting NExpDigits = True"
| "numAccepting ns = False"

text \<open>
  The tokenizer reads one code unit at a time. Its state says what it is in the middle
  of: nothing, a string (with the code units read so far, last first), an escape
  sequence after a backslash, the four hexadecimal digits of a code unit, a number, or a literal
  of which some code units are still to come. White space between tokens is tab, line
  feed, carriage return and space. A string holds no unescaped control character.
\<close>

datatype lexstate =
    LStart
  | LString jsstring
  | LEscape jsstring
  | LUnicode jsstring "16 word list"
  | LNumber numstate jsstring
  | LLiteral json jsstring

definition isJSONWhiteSpace :: "16 word \<Rightarrow> bool" where
  "isJSONWhiteSpace c = (c = 0x09 \<or> c = 0x0A \<or> c = 0x0D \<or> c = 0x20)"

definition startToken :: "16 word \<Rightarrow> (lexstate \<times> token list) option" where
  "startToken c =
     (if isJSONWhiteSpace c then Some (LStart, [])
      else if c = 0x7B then Some (LStart, [TLBrace])
      else if c = 0x7D then Some (LStart, [TRBrace])
      else if c = 0x5B then Some (LStart, [TLBracket])
      else if c = 0x5D then Some (LStart, [TRBracket])
      else if c = 0x3A then Some (LStart, [TColon])
      else if c = 0x2C then Some (LStart, [TComma])
      else if c = 0x22 then Some (LString [], [])
      else if c = 0x2D then Some (LNumber NMinus [c], [])
      else if c = 0x30 then Some (LNumber NZero [c], [])
      else if isDigit c then Some (LNumber NInt [c], [])
      else if c = 0x74 then Some (LLiteral (JBool True) (js ''rue''), [])
      else if c = 0x66 then Some (LLiteral (JBool False) (js ''alse''), [])
      else if c = 0x6E then Some (LLiteral JNull (js ''ull''), [])
      else None)"

definition escapeChar :: "16 word \<Rightarrow> 16 word option" where
  "escapeChar c =
     (if c = 0x22 then Some 0x22
      else if c = 0x5C then Some 0x5C
      else if c = 0x2F then Some 0x2F
      else if c = 0x62 then Some 0x08
      else if c = 0x66 then Some 0x0C
      else if c = 0x6E then Some 0x0A
      else if c = 0x72 then Some 0x0D
      else if c = 0x74 then Some 0x09
      else None)"

definition hexValue :: "16 word \<Rightarrow> 16 word option" where
  "hexValue c =
     (if isDigit c then Some (c - 0x30)
      else if 0x61 \<le> c \<and> c \<le> 0x66 then Some (c - 0x57)
      else if 0x41 \<le> c \<and> c \<le> 0x46 then Some (c - 0x37)
      else None)"

definition codeUnit :: "16 word list \<Rightarrow> 16 word" where
  "codeUnit hs = foldl (\<lambda>a h. 16 * a + h) 0 hs"

fun lex :: "lexstate \<Rightarrow> token list \<Rightarrow> jsstring \<Rightarrow> token list option" where
  "lex LStart acc [] = Some (rev acc)"
| "lex (LNumber ns t) acc [] =
     (if numAccepting ns then Some (rev (TScalar (JNumber (rev t)) # acc)) else None)"
| "lex st acc [] = None"
| "lex LStart acc (c # cs) =
     (case startToken c of None \<Rightarrow> None | Some (st, ts) \<Rightarrow> lex st (ts @ acc) cs)"
| "lex (LString s) acc (c # cs) =
     (if c = 0x22 then lex LStart (TScalar (JString (rev s)) # acc) cs
      else if c = 0x5C then lex (LEscape s) acc cs
      else if c < 0x20 then None
      else lex (LString (c # s)) acc cs)"
| "lex (LEscape s) acc (c # cs) =
     (if c = 0x75 then lex (LUnicode s []) acc cs
      else case escapeChar c of None \<Rightarrow> None | Some e \<Rightarrow> lex (LString (e # s)) acc cs)"
| "lex (LUnicode s hs) acc (c # cs) =
     (case hexValue c of
        None \<Rightarrow> None
      | Some h \<Rightarrow> if length hs = 3 then lex (LString (codeUnit (hs @ [h]) # s)) acc cs
                  else lex (LUnicode s (hs @ [h])) acc cs)"
| "lex (LNumber ns t) acc (c # cs) =
     (case numStep ns c of
        Some ns' \<Rightarrow> lex (LNumber ns' (c # t)) acc cs
      | None \<Rightarrow> if numAccepting ns
                then (case startToken c of
                        None \<Rightarrow> None
                      | Some (st, ts) \<Rightarrow> lex st (ts @ TScalar (JNumber (rev t)) # acc) cs)
                else None)"
| "lex (LLiteral v es) acc (c # cs) =
     (case es of
        [] \<Rightarrow> None
      | e # es' \<Rightarrow> if c = e then (if es' = [] then lex LStart (TScalar v # acc) cs
                                   else lex (LLiteral v es') acc cs)
                   else None)"

text \<open>
  The parser reads one token at a time and keeps the arrays and objects it is inside
  of on a stack: an array with the elements read so far, an object with the members
  read so far and the key whose value is being read, both last first. Its state says
  what may come next: a value; a value or \<open>]\<close>; a key or \<open>}\<close>; a key; a colon; or, after
  a complete value, a comma or the closing bracket of the enclosing frame.
\<close>

datatype frame = FArray "json list" | FObject "(jsstring \<times> json) list" jsstring

datatype pstate =
    PValue
  | PArrayFirst
  | PObjectFirst
  | PKey "(jsstring \<times> json) list"
  | PColon "(jsstring \<times> json) list" jsstring
  | PAfter json

fun beginValue :: "token \<Rightarrow> pstate option" where
  "beginValue (TScalar v) = Some (PAfter v)"
| "beginValue TLBracket = Some PArrayFirst"
| "beginValue TLBrace = Some PObjectFirst"
| "beginValue t = None"

fun parse :: "pstate \<Rightarrow> frame list \<Rightarrow> token list \<Rightarrow> json option" where
  "parse (PAfter v) [] [] = Some v"
| "parse st stk [] = None"
| "parse PValue stk (t # ts) =
     (case beginValue t of None \<Rightarrow> None | Some st \<Rightarrow> parse st stk ts)"
| "parse PArrayFirst stk (t # ts) =
     (if t = TRBracket then parse (PAfter (JArray [])) stk ts
      else case beginValue t of None \<Rightarrow> None | Some st \<Rightarrow> parse st (FArray [] # stk) ts)"
| "parse PObjectFirst stk (t # ts) =
     (case t of
        TRBrace \<Rightarrow> parse (PAfter (JObject [])) stk ts
      | TScalar (JString k) \<Rightarrow> parse (PColon [] k) stk ts
      | _ \<Rightarrow> None)"
| "parse (PKey ms) stk (t # ts) =
     (case t of TScalar (JString k) \<Rightarrow> parse (PColon ms k) stk ts | _ \<Rightarrow> None)"
| "parse (PColon ms k) stk (t # ts) =
     (if t = TColon then parse PValue (FObject ms k # stk) ts else None)"
| "parse (PAfter v) stk (t # ts) =
     (case stk of
        [] \<Rightarrow> None
      | FArray es # stk' \<Rightarrow>
          if t = TComma then parse PValue (FArray (v # es) # stk') ts
          else if t = TRBracket then parse (PAfter (JArray (rev (v # es)))) stk' ts
          else None
      | FObject ms k # stk' \<Rightarrow>
          if t = TComma then parse (PKey ((k, v) # ms)) stk' ts
          else if t = TRBrace then parse (PAfter (JObject (rev ((k, v) # ms)))) stk' ts
          else None)"

text \<open>\<open>JSON.parse(text)\<close> returns the value of a JSON text and throws a \<open>SyntaxError\<close> for
  any other string.\<close>

definition JSON_parse :: "jsstring \<Rightarrow> error + json" where
  "JSON_parse text =
     (case lex LStart [] text of
        None \<Rightarrow> Inl SyntaxError
      | Some ts \<Rightarrow> (case parse PValue [] ts of None \<Rightarrow> Inl SyntaxError | Some v \<Rightarrow> Inr v))"

subsection \<open>The two slots of \<open>localStorage\<close>\<close>

text \<open>\<open>localStorage.getItem\<close> returns the string stored under a key, or \<open>null\<close>, here
  \<open>None\<close>, when there is none.\<close>

record Storage =
  lotteryPlayers :: "jsstring option"
  lotteryWinners :: "jsstring option"

text \<open>\<open>item || "[]"\<close>: \<open>null\<close> and the empty string are falsy.\<close>

definition orEmptyArray :: "jsstring option \<Rightarrow> jsstring" where
  "orEmptyArray item = (case item of None \<Rightarrow> js ''[]'' | Some s \<Rightarrow> if s = [] then js ''[]'' else s)"

text \<open>
  The effect that runs when the component is mounted:
  \<^verbatim>\<open>
    const savedPlayers = JSON.parse(localStorage.getItem("lotteryPlayers") || "[]");
    const savedWinners = JSON.parse(localStorage.getItem("lotteryWinners") || "[]");
    setPlayers(savedPlayers);
    setWinnersHistory(savedWinners);
  \<close>
  Nothing catches what \<open>JSON.parse\<close> throws. The two parsed values go into the state as
  they are. The two effects that write the slots, \<open>JSON.stringify\<close> of each array
  after a render that changed it, are not modelled.
\<close>

definition load :: "Storage \<Rightarrow> error + json \<times> json" where
  "load storage =
     (case JSON_parse (orEmptyArray (lotteryPlayers storage)) of
        Inl err \<Rightarrow> Inl err
      | Inr savedPlayers \<Rightarrow>
          (case JSON_parse (orEmptyArray (lotteryWinners storage)) of
             Inl err \<Rightarrow> Inl err
           | Inr savedWinners \<Rightarrow> Inr (savedPlayers, savedWinners)))"

section \<open>Runs of the component\<close>

text \<open>A draw requested at \<open>t0\<close> on the pool \<open>pool\<close> is in flight, and it is the only one.\<close>

definition inFlight :: "Player list \<Rightarrow> int \<Rightarrow> World \<Rightarrow> bool" where
  "inFlight pool t0 w =
     (intervals w = [\<lparr>closure_players = pool, startTime = t0\<rparr>] \<and> isDrawing (ui w))"

text \<open>
  The component as mounted, before any event; and what holds of every world it can
  reach from there: a timer is pending exactly while \<open>isDrawing\<close>, only one, and the
  array of its closure is not empty.
\<close>

definition mounted :: World where
  "mounted = \<lparr>ui = initialState, intervals = [], confettiTimeouts = 0\<rparr>"

definition consistent :: "World \<Rightarrow> bool" where
  "consistent w =
     (length (intervals w) = (if isDrawing (ui w) then 1 else 0) \<and>
      list_all (\<lambda>sp. closure_players sp \<noteq> []) (intervals w))"

text \<open>An event whose random value, if it carries one, is a value of \<open>Math.random()\<close>.\<close>

fun validEvent :: "event \<Rightarrow> bool" where
  "validEvent (IntervalTick i now r d) = isRandom r"
| "validEvent e = True"

section \<open>The selection index is in range\<close>

lemma roundTiesToEven_upper: "2 * (roundTiesToEven M s * 2 ^ s) \<le> 2 * M + 2 ^ s"
proof -
  define q where "q = M div 2 ^ s"
  define rest where "rest = M mod 2 ^ s"
  have M: "M = q * 2 ^ s + rest"
    unfolding q_def rest_def by (rule div_mult_mod_eq [symmetric])
  have "roundTiesToEven M s = q \<or> (roundTiesToEven M s = q + 1 \<and> 2 ^ s \<le> 2 * rest)"
    by (auto simp: roundTiesToEven_def Let_def q_def rest_def)
  then show ?thesis
  proof
    assume "roundTiesToEven M s = q"
    then show ?thesis by (simp add: M)
  next
    assume "roundTiesToEven M s = q + 1 \<and> 2 ^ s \<le> 2 * rest"
    then show ?thesis by (simp add: M algebra_simps)
  qed
qed

lemma random_mant_bound:
  assumes "isRandom r"
  shows "mant r * 2 ^ 53 + mant r < 2 ^ expo r * 2 ^ 53"
proof -
  from assms have a: "mant r < 2 ^ 53" and b: "mant r + 1 \<le> 2 ^ expo r"
    by (simp_all add: isRandom_def)
  have "mant r * 2 ^ 53 + mant r < mant r * 2 ^ 53 + 2 ^ 53"
    using a by simp
  also have "\<dots> = (mant r + 1) * 2 ^ 53"
    by (simp add: algebra_simps)
  also have "\<dots> \<le> 2 ^ expo r * 2 ^ 53"
    using b by (rule mult_le_mono1)
  finally show ?thesis .
qed

text \<open>The rounded product stays below \<open>n\<close>: the rounding adds at most half a unit in the
  last place, which is less than what \<open>mant / 2 ^ expo\<close> lacks to 1.\<close>

lemma randomIndex_less:
  assumes r: "isRandom r" and n: "0 < n"
  shows "randomIndex r n < n"
proof -
  define m where "m = mant r"
  define k where "k = expo r"
  define M where "M = m * n"
  have mk: "m < 2 ^ k"
    using r by (simp add: isRandom_def m_def k_def)
  show ?thesis
  proof (cases "M < 2 ^ 53")
    case True
    have "M < n * 2 ^ k"
      unfolding M_def using mk n by (simp add: mult.commute)
    then have "M div 2 ^ k < n"
      by (simp add: less_mult_imp_div_less)
    with True show ?thesis
      by (simp add: randomIndex_def Let_def M_def m_def k_def)
  next
    case False
    define s where "s = floorlog 2 M - 53"
    define R where "R = roundTiesToEven M s"
    from False have M53: "2 ^ 53 \<le> M" by simp
    then have "Suc 53 \<le> floorlog 2 M"
      by (intro floorlog_ge_SucI) simp_all
    then have fl: "floorlog 2 M - 1 = s + 52"
      by (simp add: s_def)
    have "0 < M" using M53 by (simp add: less_le_trans [OF _ M53])
    then have "2 ^ (floorlog 2 M - 1) \<le> M"
      using floorlog_bounds [of M 2] by simp
    then have low: "2 ^ s * 2 ^ 52 \<le> M"
      unfolding fl by (simp add: power_add)
    have up: "2 * (R * 2 ^ s) \<le> 2 * M + 2 ^ s"
      unfolding R_def by (rule roundTiesToEven_upper)
    have "2 ^ 53 * (2 * (R * 2 ^ s)) \<le> 2 ^ 53 * (2 * M + 2 ^ s)"
      using up by (rule mult_le_mono2)
    also have "\<dots> = 2 * (M * 2 ^ 53) + 2 * (2 ^ s * 2 ^ 52)"
      by (simp add: algebra_simps)
    also have "\<dots> \<le> 2 * (M * 2 ^ 53) + 2 * M"
      using low by simp
    finally have "2 ^ 53 * (R * 2 ^ s) \<le> M * 2 ^ 53 + M"
      by simp
    also have "\<dots> = n * (m * 2 ^ 53 + m)"
      by (simp add: M_def algebra_simps)
    also have "\<dots> < n * (2 ^ k * 2 ^ 53)"
      using random_mant_bound [OF r] n by (simp add: m_def k_def)
    finally have "R * 2 ^ s < n * 2 ^ k"
      by simp
    then have "(R * 2 ^ s) div 2 ^ k < n"
      by (simp add: less_mult_imp_div_less)
    with False show ?thesis
      by (simp add: randomIndex_def Let_def M_def m_def k_def R_def s_def)
  qed
qed

lemma element_at_random:
  assumes "isRandom r" and "xs \<noteq> []"
  shows "\<exists>p. element_at xs (randomIndex r (length xs)) = Some p \<and> p \<in> set xs"
proof -
  have "randomIndex r (length xs) < length xs"
    using assms by (intro randomIndex_less) simp_all
  then show ?thesis
    by (simp add: element_at_def)
qed

text \<open>
  Claim C10. Whenever the array \<open>players\<close> indexed by the draw is non-empty, the index
  \<open>Math.floor(Math.random() * players.length)\<close> is in range, and \<open>players[randomIndex]\<close>
  is an entrant of that array, never \<open>undefined\<close>.
\<close>

theorem C10_selection_in_bounds:
  assumes "isRandom r" and "pool \<noteq> []"
  shows "randomIndex r (length pool) < length pool \<and>
         (\<exists>p. element_at pool (randomIndex r (length pool)) = Some p \<and> p \<in> set pool)"
proof
  show "randomIndex r (length pool) < length pool"
    using assms by (intro randomIndex_less) simp_all
  show "\<exists>p. element_at pool (randomIndex r (length pool)) = Some p \<and> p \<in> set pool"
    using assms by (rule element_at_random)
qed

theorem C10_selection_in_bounds_witness:
  "randomIndex \<lparr>mant = 1, expo = 1\<rparr> (length [10, 20, 30 :: int]) < length [10, 20, 30 :: int] \<and>
   (\<exists>p. element_at [10, 20, 30 :: int]
          (randomIndex \<lparr>mant = 1, expo = 1\<rparr> (length [10, 20, 30 :: int])) = Some p
        \<and> p \<in> set [10, 20, 30])"
  using C10_selection_in_bounds [of "\<lparr>mant = 1, expo = 1\<rparr>" "[10, 20, 30 :: int]"]
  by (simp add: isRandom_def)

section \<open>Registration, removal and clearing\<close>

lemma register_accepted:
  assumes "trim nm \<noteq> []" and "trim num \<noteq> []"
  shows "register nm num now st =
           st\<lparr>players := players st @ [\<lparr>name = trim nm, number = trim num, ident = now\<rparr>],
              name_input := [], number_input := []\<rparr>"
  using assms by (simp add: register_def handleRegister_def)

lemma trim_examples:
  "trim (js ''Alice'') = js ''Alice''" "trim (js ''Bob'') = js ''Bob''"
  "trim (js ''123'') = js ''123''" "trim (js ''456'') = js ''456''"
  "trim (js ''   '') = []" "trim (js '' Alice  '') = js ''Alice''"
  by (simp_all add: trim_def js_def isWhiteSpace_def)

lemma js_not_empty: "js (c # cs) \<noteq> []"
  by (simp add: js_def)

lemma two_registered:
  "register (js ''Bob'') (js ''456'') t2 (register (js ''Alice'') (js ''123'') t1 initialState)
     = initialState\<lparr>players := [\<lparr>name = js ''Alice'', number = js ''123'', ident = t1\<rparr>,
                                 \<lparr>name = js ''Bob'', number = js ''456'', ident = t2\<rparr>]\<rparr>"
  by (simp add: register_accepted trim_examples js_not_empty initialState_def)

text \<open>
  Claim C4. Whatever the state and the two input strings, a registration whose name or
  number is empty after trimming is rejected: the handler returns the state as it got
  it, so the pool keeps its contents and its size.
\<close>

theorem C4_empty_registration_rejected:
  assumes "trim nm = [] \<or> trim num = []"
  shows "handleRegister now (st\<lparr>name_input := nm, number_input := num\<rparr>)
           = st\<lparr>name_input := nm, number_input := num\<rparr>
         \<and> players (register nm num now st) = players st
         \<and> length (players (register nm num now st)) = length (players st)"
  using assms by (auto simp: register_def handleRegister_def)

theorem C4_empty_registration_rejected_witness:
  "players (register (js ''   '') (js ''123'') 1000 initialState) = players initialState"
  using C4_empty_registration_rejected [of "js ''   ''" "js ''123''" 1000 initialState]
  by (simp add: trim_examples)

text \<open>
  Claim C5, as stated: two registrations in sequence get distinct ids. The id is the
  value of \<open>Date.now()\<close>, a clock of millisecond resolution that can also be set back, and
  nothing compares it with the ids of the pool: registering Alice and Bob at the same
  reading 1000 gives both the id 1000.
\<close>

theorem C5_two_registrations_counterexample:
  "map ident (players (register (js ''Bob'') (js ''456'') 1000
                        (register (js ''Alice'') (js ''123'') 1000 initialState)))
     = [1000, 1000]
   \<and> \<not> distinct (map ident (players (register (js ''Bob'') (js ''456'') 1000
                        (register (js ''Alice'') (js ''123'') 1000 initialState))))"
  by (simp add: two_registered)

text \<open>
  Claim C5, amended. For every starting pool, registering two valid entrants in
  sequence appends both to the pool in that order with trimmed fields; the id of each
  is the reading of the clock at its registration. So the ids of the pool are pairwise
  distinct afterwards exactly when they were before, the two readings differ, and
  neither reading is the id of an entrant of the starting pool.
\<close>

theorem C5_two_registrations:
  assumes "trim n1 \<noteq> []" and "trim m1 \<noteq> []" and "trim n2 \<noteq> []" and "trim m2 \<noteq> []"
  shows "players (register n2 m2 t2 (register n1 m1 t1 st)) =
           players st @ [\<lparr>name = trim n1, number = trim m1, ident = t1\<rparr>,
                         \<lparr>name = trim n2, number = trim m2, ident = t2\<rparr>]
         \<and> (distinct (map ident (players (register n2 m2 t2 (register n1 m1 t1 st)))) \<longleftrightarrow>
              distinct (map ident (players st)) \<and> t1 \<noteq> t2 \<and>
              t1 \<notin> ident ` set (players st) \<and> t2 \<notin> ident ` set (players st))"
  using assms by (auto simp: register_accepted)

theorem C5_two_registrations_witness:
  "players (register (js ''Bob'') (js ''456'') 2000
             (register (js '' Alice  '') (js ''123'') 1000 initialState)) =
     [\<lparr>name = js ''Alice'', number = js ''123'', ident = 1000\<rparr>,
      \<lparr>name = js ''Bob'', number = js ''456'', ident = 2000\<rparr>]
   \<and> distinct (map ident (players (register (js ''Bob'') (js ''456'') 2000
             (register (js '' Alice  '') (js ''123'') 1000 initialState))))"
  using C5_two_registrations [of "js '' Alice  ''" "js ''123''" "js ''Bob''" "js ''456''"
          2000 1000 initialState]
  by (simp add: trim_examples js_not_empty initialState_def)

lemma filter_single_ident:
  assumes "length (filter (\<lambda>q. ident q = i) ps) = 1"
  shows "\<exists>xs p ys. ps = xs @ p # ys \<and> ident p = i \<and> filter (\<lambda>q. ident q \<noteq> i) ps = xs @ ys"
proof -
  from assms obtain p where "filter (\<lambda>q. ident q = i) ps = [p]"
    by (cases "filter (\<lambda>q. ident q = i) ps") auto
  then obtain xs ys where ps: "ps = xs @ p # ys" and xs: "\<forall>u \<in> set xs. ident u \<noteq> i"
    and p: "ident p = i" and ys: "filter (\<lambda>q. ident q = i) ys = []"
    by (auto simp: filter_eq_Cons_iff)
  from ys have "\<forall>u \<in> set ys. ident u \<noteq> i"
    by (simp add: filter_empty_conv)
  with xs p have "filter (\<lambda>q. ident q \<noteq> i) ps = xs @ ys"
    unfolding ps by (simp add: filter_id_conv)
  with ps p show ?thesis by blast
qed

text \<open>
  Claim C7, as stated: removing an id that is in the pool makes the pool exactly one
  entrant shorter. \<open>removePlayer\<close> filters the pool by id, so it removes every entrant
  that has the id, and two registrations at the same reading of the clock share their
  id: the pool below has two entrants with id 1000, and removing 1000 empties it.
\<close>

theorem C7_remove_by_id_counterexample:
  "length (players (register (js ''Bob'') (js ''456'') 1000
                     (register (js ''Alice'') (js ''123'') 1000 initialState))) = 2
   \<and> 1000 \<in> ident ` set (players (register (js ''Bob'') (js ''456'') 1000
                     (register (js ''Alice'') (js ''123'') 1000 initialState)))
   \<and> length (players (removePlayer 1000
                (register (js ''Bob'') (js ''456'') 1000
                     (register (js ''Alice'') (js ''123'') 1000 initialState)))) = 0"
  by (simp add: two_registered removePlayer_def)

text \<open>
  Claim C7, amended. In every pool, removing an id takes out every entrant that has the
  id and leaves the others in their order, so the pool gets shorter by the number of
  entrants with that id. Removing an id that no entrant has changes nothing. When
  exactly one entrant has the id, that one entrant goes, the others stay in their
  order, and the pool is exactly one shorter.
\<close>

theorem C7_remove_by_id:
  "players (removePlayer i st) = filter (\<lambda>q. ident q \<noteq> i) (players st) \<and>
   length (players (removePlayer i st)) + length (filter (\<lambda>q. ident q = i) (players st))
     = length (players st) \<and>
   (i \<notin> ident ` set (players st) \<longrightarrow> removePlayer i st = st) \<and>
   (length (filter (\<lambda>q. ident q = i) (players st)) = 1 \<longrightarrow>
      (\<exists>xs p ys. players st = xs @ p # ys \<and> ident p = i \<and>
                  players (removePlayer i st) = xs @ ys) \<and>
      Suc (length (players (removePlayer i st))) = length (players st))"
proof (intro conjI impI)
  show "players (removePlayer i st) = filter (\<lambda>q. ident q \<noteq> i) (players st)"
    by (simp add: removePlayer_def)
  show "length (players (removePlayer i st)) + length (filter (\<lambda>q. ident q = i) (players st))
     = length (players st)"
    using sum_length_filter_compl [of "\<lambda>q. ident q = i" "players st"]
    by (simp add: removePlayer_def)
next
  assume "i \<notin> ident ` set (players st)"
  then have "filter (\<lambda>q. ident q \<noteq> i) (players st) = players st"
    by (auto simp: filter_id_conv)
  then show "removePlayer i st = st"
    by (simp add: removePlayer_def)
next
  assume a: "length (filter (\<lambda>q. ident q = i) (players st)) = 1"
  then obtain xs p ys where d: "players st = xs @ p # ys" "ident p = i"
      "filter (\<lambda>q. ident q \<noteq> i) (players st) = xs @ ys"
    using filter_single_ident [of i "players st"] by blast
  then show "\<exists>xs p ys. players st = xs @ p # ys \<and> ident p = i \<and>
                        players (removePlayer i st) = xs @ ys"
    by (auto simp: removePlayer_def)
  from d show "Suc (length (players (removePlayer i st))) = length (players st)"
    by (simp add: removePlayer_def)
qed

theorem C7_remove_by_id_witness:
  "removePlayer 3
     (initialState\<lparr>players := [\<lparr>name = js ''Alice'', number = js ''123'', ident = 1\<rparr>,
                               \<lparr>name = js ''Bob'', number = js ''456'', ident = 1\<rparr>,
                               \<lparr>name = js ''Carol'', number = js ''789'', ident = 2\<rparr>]\<rparr>)
   = initialState\<lparr>players := [\<lparr>name = js ''Alice'', number = js ''123'', ident = 1\<rparr>,
                               \<lparr>name = js ''Bob'', number = js ''456'', ident = 1\<rparr>,
                               \<lparr>name = js ''Carol'', number = js ''789'', ident = 2\<rparr>]\<rparr>
   \<and> players (removePlayer 2
     (initialState\<lparr>players := [\<lparr>name = js ''Alice'', number = js ''123'', ident = 1\<rparr>,
                               \<lparr>name = js ''Bob'', number = js ''456'', ident = 1\<rparr>,
                               \<lparr>name = js ''Carol'', number = js ''789'', ident = 2\<rparr>]\<rparr>))
     = [\<lparr>name = js ''Alice'', number = js ''123'', ident = 1\<rparr>,
        \<lparr>name = js ''Bob'', number = js ''456'', ident = 1\<rparr>]
   \<and> Suc (length (players (removePlayer 2
     (initialState\<lparr>players := [\<lparr>name = js ''Alice'', number = js ''123'', ident = 1\<rparr>,
                               \<lparr>name = js ''Bob'', number = js ''456'', ident = 1\<rparr>,
                               \<lparr>name = js ''Carol'', number = js ''789'', ident = 2\<rparr>]\<rparr>)))) = 3"
  using C7_remove_by_id [of 3 "initialState\<lparr>players := [\<lparr>name = js ''Alice'', number = js ''123'', ident = 1\<rparr>,
                               \<lparr>name = js ''Bob'', number = js ''456'', ident = 1\<rparr>,
                               \<lparr>name = js ''Carol'', number = js ''789'', ident = 2\<rparr>]\<rparr>"]
        C7_remove_by_id [of 2 "initialState\<lparr>players := [\<lparr>name = js ''Alice'', number = js ''123'', ident = 1\<rparr>,
                               \<lparr>name = js ''Bob'', number = js ''456'', ident = 1\<rparr>,
                               \<lparr>name = js ''Carol'', number = js ''789'', ident = 2\<rparr>]\<rparr>"]
  by simp

text \<open>
  Claim C9. In every state, \<open>clearHistory\<close> empties the history and leaves the pool as
  it is, and \<open>clearAllPlayers\<close> leaves a pool of size 0 and the history as it is.
\<close>

theorem C9_clearing_frames:
  "winnersHistory (clearHistory st) = [] \<and> players (clearHistory st) = players st \<and>
   players (clearAllPlayers st) = [] \<and> length (players (clearAllPlayers st)) = 0 \<and>
   winnersHistory (clearAllPlayers st) = winnersHistory st"
  by (simp add: clearHistory_def clearAllPlayers_def)

section \<open>Requesting a draw\<close>

text \<open>
  Claim C8. A draw requested on an empty pool changes nothing: \<open>handleDraw\<close> returns at
  once, no timer is started, the history and \<open>isDrawing\<close> are as before.
\<close>

theorem C8_draw_on_empty_pool:
  assumes "players (ui w) = []"
  shows "handleDraw now w = w \<and> drawButton now w = w \<and> apply_event v (DrawClick now) w = Inr w"
  using assms by (simp add: handleDraw_def drawButton_def)

theorem C8_draw_on_empty_pool_witness:
  "handleDraw 5 \<lparr>ui = initialState, intervals = [], confettiTimeouts = 0\<rparr>
     = \<lparr>ui = initialState, intervals = [], confettiTimeouts = 0\<rparr>"
  using C8_draw_on_empty_pool [of "\<lparr>ui = initialState, intervals = [], confettiTimeouts = 0\<rparr>" 5]
  by (simp add: initialState_def)

text \<open>
  Claim C6. While a draw is in flight (\<open>isDrawing\<close>), requesting a draw is a no-op: the
  draw button is disabled, so the whole world, with its timers and its history, stays
  as it is.
\<close>

theorem C6_draw_while_drawing:
  assumes "isDrawing (ui w)"
  shows "drawButton now w = w \<and> apply_event v (DrawClick now) w = Inr w"
  using assms by (simp add: drawButton_def)

theorem C6_draw_while_drawing_witness:
  "drawButton 9
     (handleDraw 0
        \<lparr>ui = initialState\<lparr>players := [\<lparr>name = js ''Alice'', number = js ''123'', ident = 7\<rparr>]\<rparr>,
         intervals = [], confettiTimeouts = 0\<rparr>)
   = handleDraw 0
        \<lparr>ui = initialState\<lparr>players := [\<lparr>name = js ''Alice'', number = js ''123'', ident = 7\<rparr>]\<rparr>,
         intervals = [], confettiTimeouts = 0\<rparr>"
  using C6_draw_while_drawing
          [of "handleDraw 0
                 \<lparr>ui = initialState\<lparr>players :=
                         [\<lparr>name = js ''Alice'', number = js ''123'', ident = 7\<rparr>]\<rparr>,
                  intervals = [], confettiTimeouts = 0\<rparr>" 9]
  by (simp add: handleDraw_def)

text \<open>The guard is the button's: \<open>handleDraw\<close> itself does not look at \<open>isDrawing\<close>.\<close>

lemma handleDraw_ignores_isDrawing:
  "players (ui w) \<noteq> [] \<Longrightarrow> length (intervals (handleDraw now w)) = Suc (length (intervals w))"
  by (simp add: handleDraw_def)

section \<open>Completing a draw\<close>

lemma spinTick_completes:
  assumes "i < length (intervals w)" and "closure_players (intervals w ! i) \<noteq> []"
    and "isRandom r" and "spinDuration \<le> now - startTime (intervals w ! i)"
  shows "\<exists>win. win \<in> set (closure_players (intervals w ! i)) \<and>
           spinTick v i now r d w =
             Inr (w\<lparr>ui := completeDraw v win d (ui w),
                    intervals := take i (intervals w) @ drop (Suc i) (intervals w),
                    confettiTimeouts := Suc (confettiTimeouts w)\<rparr>)"
proof -
  from element_at_random [OF assms(3) assms(2)]
  obtain win where "element_at (closure_players (intervals w ! i))
      (randomIndex r (length (closure_players (intervals w ! i)))) = Some win"
    and "win \<in> set (closure_players (intervals w ! i))"
    by blast
  with assms(1,4) show ?thesis
    by (auto simp: spinTick_def Let_def)
qed

lemma spinTick_early:
  assumes "i < length (intervals w) \<longrightarrow> now - startTime (intervals w ! i) < spinDuration"
  shows "spinTick v i now r d w = Inr w"
  using assms by (auto simp: spinTick_def Let_def)

text \<open>While the draw is in flight, no event short of the completing tick ends it: the
  draw button is disabled, and the pool handlers do not touch the timer.\<close>

lemma inFlight_event:
  assumes "inFlight pool t0 w" and "beforeDeadline t0 e"
  shows "\<exists>w'. apply_event v e w = Inr w' \<and> inFlight pool t0 w'"
proof (cases e)
  case (IntervalTick i now r d)
  with assms have "spinTick v i now r d w = Inr w"
    by (intro spinTick_early) (auto simp: inFlight_def)
  with IntervalTick assms(1) show ?thesis by simp
next
  case (RegisterClick now)
  with assms(1) show ?thesis
    by (simp add: inFlight_def onUi_def handleRegister_def)
next
  case (KeyDown key now)
  with assms(1) show ?thesis
    by (simp add: inFlight_def onUi_def handleKeyPress_def handleRegister_def)
qed (use assms(1) in \<open>simp_all add: inFlight_def onUi_def removePlayer_def clearAllPlayers_def
       clearHistory_def closeWinnerPopup_def drawButton_def confettiTimeout_def\<close>)

lemma inFlight_run:
  assumes "inFlight pool t0 w" and "\<forall>e \<in> set es. beforeDeadline t0 e"
  shows "\<exists>w'. run v es w = Inr w' \<and> inFlight pool t0 w'"
  using assms
proof (induction es arbitrary: w)
  case Nil
  then show ?case by simp
next
  case (Cons e es)
  from Cons.prems obtain w1 where w1: "apply_event v e w = Inr w1" "inFlight pool t0 w1"
    using inFlight_event [of pool t0 w e v] by auto
  from Cons.IH [OF w1(2)] Cons.prems(2)
  obtain w' where "run v es w1 = Inr w'" "inFlight pool t0 w'"
    by auto
  with w1(1) show ?case by simp
qed

lemma drawButton_inFlight:
  assumes "players (ui w) \<noteq> []" and "\<not> isDrawing (ui w)" and "intervals w = []"
  shows "inFlight (players (ui w)) t0 (drawButton t0 w)"
  using assms by (simp add: inFlight_def drawButton_def handleDraw_def)

subsection \<open>The worlds the component reaches\<close>

lemma consistent_mounted: "consistent mounted"
  by (simp add: consistent_def mounted_def initialState_def)

lemma consistent_onUi:
  assumes "consistent w" and "isDrawing (f (ui w)) = isDrawing (ui w)"
  shows "consistent (onUi f w)"
  using assms by (simp add: consistent_def onUi_def)

lemma isDrawing_handleRegister: "isDrawing (handleRegister now st) = isDrawing st"
  by (simp add: handleRegister_def)

lemma consistent_spinTick:
  assumes "consistent w" and "isRandom r"
  shows "\<exists>w'. spinTick v i now r d w = Inr w' \<and> consistent w'"
proof (cases "i < length (intervals w) \<and> spinDuration \<le> now - startTime (intervals w ! i)")
  case False
  then have "spinTick v i now r d w = Inr w"
    by (intro spinTick_early) auto
  with assms(1) show ?thesis by simp
next
  case True
  with assms(1) have one: "length (intervals w) = 1" and i: "i = 0"
    by (auto simp: consistent_def split: if_splits)
  from assms(1) True have "closure_players (intervals w ! i) \<noteq> []"
    by (auto simp: consistent_def list_all_length)
  from spinTick_completes [OF _ this assms(2), of now v d] True
  obtain win where "spinTick v i now r d w =
             Inr (w\<lparr>ui := completeDraw v win d (ui w),
                    intervals := take i (intervals w) @ drop (Suc i) (intervals w),
                    confettiTimeouts := Suc (confettiTimeouts w)\<rparr>)"
    by blast
  with one i show ?thesis
    by (simp add: consistent_def completeDraw_def)
qed

lemma consistent_event:
  assumes "consistent w" and "validEvent e"
  shows "\<exists>w'. apply_event v e w = Inr w' \<and> consistent w'"
proof (cases e)
  case (IntervalTick i now r d)
  with assms show ?thesis
    by (simp add: consistent_spinTick)
next
  case (DrawClick now)
  with assms(1) show ?thesis
    by (auto simp: consistent_def drawButton_def handleDraw_def)
next
  case ConfettiTimeout
  with assms(1) show ?thesis
    by (auto simp: consistent_def confettiTimeout_def split: if_splits)
qed (use assms(1) in \<open>simp_all add: consistent_onUi isDrawing_handleRegister handleKeyPress_def
       removePlayer_def clearAllPlayers_def clearHistory_def closeWinnerPopup_def\<close>)

text \<open>No run of the mounted component meets an undefined winner, and in every world it
  reaches the engine is idle with no timer, or drawing with one.\<close>

lemma consistent_run:
  assumes "consistent w" and "\<forall>e \<in> set es. validEvent e"
  shows "\<exists>w'. run v es w = Inr w' \<and> consistent w'"
  using assms
proof (induction es arbitrary: w)
  case Nil
  then show ?case by simp
next
  case (Cons e es)
  from Cons.prems obtain w1 where w1: "apply_event v e w = Inr w1" "consistent w1"
    using consistent_event [of w e v] by auto
  from Cons.IH [OF w1(2)] Cons.prems(2)
  obtain w' where "run v es w1 = Inr w'" "consistent w'"
    by auto
  with w1(1) show ?case by simp
qed

subsection \<open>The record of a completed draw\<close>

text \<open>Before the completing tick, the history changes only when the user clears it; and a
  tick finds nothing to do once no timer is pending.\<close>

lemma history_event:
  assumes "inFlight pool t0 w" and "beforeDeadline t0 e" and "apply_event v e w = Inr w'"
  shows "winnersHistory (ui w') = (if e = ClearHistoryClick then [] else winnersHistory (ui w))"
proof (cases e)
  case (IntervalTick i now r d)
  with assms(1,2) have "spinTick v i now r d w = Inr w"
    by (intro spinTick_early) (auto simp: inFlight_def)
  with IntervalTick assms(3) show ?thesis by simp
next
  case (RegisterClick now)
  with assms(3) show ?thesis
    by (auto simp: onUi_def handleRegister_def)
next
  case (KeyDown key now)
  with assms(3) show ?thesis
    by (auto simp: onUi_def handleKeyPress_def handleRegister_def)
next
  case (DrawClick now)
  with assms(1,3) show ?thesis
    by (auto simp: inFlight_def drawButton_def)
qed (use assms(3) in \<open>auto simp: onUi_def removePlayer_def clearAllPlayers_def
       clearHistory_def closeWinnerPopup_def confettiTimeout_def\<close>)

lemma history_run:
  assumes "inFlight pool t0 w" and "\<forall>e \<in> set es. beforeDeadline t0 e"
    and "run v es w = Inr w'"
  shows "winnersHistory (ui w') =
           (if ClearHistoryClick \<in> set es then [] else winnersHistory (ui w))"
  using assms
proof (induction es arbitrary: w)
  case Nil
  then show ?case by simp
next
  case (Cons e es)
  from Cons.prems(1,2) obtain w1 where w1: "apply_event v e w = Inr w1" "inFlight pool t0 w1"
    using inFlight_event [of pool t0 w e v] by auto
  from history_event [OF Cons.prems(1) _ w1(1)] Cons.prems(2)
  have h1: "winnersHistory (ui w1) = (if e = ClearHistoryClick then [] else winnersHistory (ui w))"
    by simp
  from Cons.prems(3) w1(1) have "run v es w1 = Inr w'" by simp
  from Cons.IH [OF w1(2) _ this] Cons.prems(2)
  have "winnersHistory (ui w') =
          (if ClearHistoryClick \<in> set es then [] else winnersHistory (ui w1))"
    by simp
  with h1 show ?case by auto
qed

lemma spinTick_no_timer: "intervals w = [] \<Longrightarrow> spinTick v i now r d w = Inr w"
  by (simp add: spinTick_def)

text \<open>
  Claim C1, as stated: the record that a completed draw adds has the name and the
  number of an entrant that is in the pool when the delay completes. The callback
  indexes the array \<open>players\<close> of its closure, the pool as it was when the draw was
  requested, and the remove buttons stay enabled during the spin. Below, the pool is
  Alice and Bob; the draw is requested at time 0, Alice is removed, and at time 4000
  the pool is Bob alone while the draw, in either variant, records Alice.
\<close>

theorem C1_draw_adds_one_record_counterexample:
  "map_sum id (players \<circ> ui)
     (run Dashboard_tsx [DrawClick 0, RemoveClick 7]
        \<lparr>ui = initialState\<lparr>players := [\<lparr>name = js ''Alice'', number = js ''123'', ident = 7\<rparr>,
                                       \<lparr>name = js ''Bob'', number = js ''456'', ident = 8\<rparr>]\<rparr>,
         intervals = [], confettiTimeouts = 0\<rparr>)
     = Inr [\<lparr>name = js ''Bob'', number = js ''456'', ident = 8\<rparr>]
   \<and> map_sum id (winnersHistory \<circ> ui)
     (run Dashboard_tsx
        [DrawClick 0, RemoveClick 7, IntervalTick 0 4000 \<lparr>mant = 0, expo = 1\<rparr> (js ''noon'')]
        \<lparr>ui = initialState\<lparr>players := [\<lparr>name = js ''Alice'', number = js ''123'', ident = 7\<rparr>,
                                       \<lparr>name = js ''Bob'', number = js ''456'', ident = 8\<rparr>]\<rparr>,
         intervals = [], confettiTimeouts = 0\<rparr>)
     = Inr [\<lparr>name = js ''Alice'', number = js ''123'', ident = 7, date = js ''noon''\<rparr>]
   \<and> map_sum id (players \<circ> ui)
     (run part_000 [DrawClick 0, RemoveClick 7]
        \<lparr>ui = initialState\<lparr>players := [\<lparr>name = js ''Alice'', number = js ''123'', ident = 7\<rparr>,
                                       \<lparr>name = js ''Bob'', number = js ''456'', ident = 8\<rparr>]\<rparr>,
         intervals = [], confettiTimeouts = 0\<rparr>)
     = Inr [\<lparr>name = js ''Bob'', number = js ''456'', ident = 8\<rparr>]
   \<and> map_sum id (winnersHistory \<circ> ui)
     (run part_000
        [DrawClick 0, RemoveClick 7, IntervalTick 0 4000 \<lparr>mant = 0, expo = 1\<rparr> (js ''noon'')]
        \<lparr>ui = initialState\<lparr>players := [\<lparr>name = js ''Alice'', number = js ''123'', ident = 7\<rparr>,
                                       \<lparr>name = js ''Bob'', number = js ''456'', ident = 8\<rparr>]\<rparr>,
         intervals = [], confettiTimeouts = 0\<rparr>)
     = Inr [\<lparr>name = js ''Alice'', number = js ''123'', ident = 7, date = js ''noon''\<rparr>]
   \<and> js ''Alice'' \<noteq> js ''Bob''"
  by (simp add: initialState_def drawButton_def handleDraw_def onUi_def removePlayer_def
        spinTick_def spinDuration_def randomIndex_def element_at_def completeDraw_def js_def)

text \<open>
  Claim C1, amended. A draw requested on a non-empty pool while no draw is in flight,
  once its delay has elapsed, adds exactly one WinnerRecord to the front of the
  history, whatever the user did to the pool and the history in between: until the
  completing tick the history is the one of the request, or empty if the user cleared
  it; the completing tick puts one record in front of it and stops the timer, so that
  no later tick changes anything. The name and the number of the record are those of
  an entrant that was in the pool when the draw was requested.
\<close>

theorem C1_draw_adds_one_record:
  assumes "players (ui w0) \<noteq> []" and "\<not> isDrawing (ui w0)" and "intervals w0 = []"
    and "\<forall>e \<in> set es. beforeDeadline t0 e"
    and "isRandom r" and "spinDuration \<le> t1 - t0"
  shows "\<exists>w2 w3 p. run v es (drawButton t0 w0) = Inr w2 \<and>
           winnersHistory (ui w2) =
             (if ClearHistoryClick \<in> set es then [] else winnersHistory (ui w0)) \<and>
           spinTick v 0 t1 r d w2 = Inr w3 \<and>
           p \<in> set (players (ui w0)) \<and>
           winnersHistory (ui w3) =
             \<lparr>name = name p, number = number p, ident = ident p, date = d\<rparr>
               # winnersHistory (ui w2) \<and>
           intervals w3 = [] \<and> \<not> isDrawing (ui w3) \<and>
           (\<forall>i now r' d'. spinTick v i now r' d' w3 = Inr w3)"
proof -
  have start: "inFlight (players (ui w0)) t0 (drawButton t0 w0)"
    using assms(1-3) by (rule drawButton_inFlight)
  from inFlight_run [OF start assms(4)]
  obtain w2 where w2: "run v es (drawButton t0 w0) = Inr w2"
      "inFlight (players (ui w0)) t0 w2"
    by blast
  have "winnersHistory (ui (drawButton t0 w0)) = winnersHistory (ui w0)"
    by (simp add: drawButton_def handleDraw_def)
  with history_run [OF start assms(4) w2(1)]
  have h2: "winnersHistory (ui w2) =
             (if ClearHistoryClick \<in> set es then [] else winnersHistory (ui w0))"
    by simp
  from w2(2) have iv: "intervals w2 = [\<lparr>closure_players = players (ui w0), startTime = t0\<rparr>]"
    by (simp add: inFlight_def)
  have "\<exists>win. win \<in> set (closure_players (intervals w2 ! 0)) \<and>
           spinTick v 0 t1 r d w2 =
             Inr (w2\<lparr>ui := completeDraw v win d (ui w2),
                    intervals := take 0 (intervals w2) @ drop (Suc 0) (intervals w2),
                    confettiTimeouts := Suc (confettiTimeouts w2)\<rparr>)"
    using assms(1,5,6) by (intro spinTick_completes) (simp_all add: iv)
  then obtain p where p: "p \<in> set (players (ui w0))"
    and tick: "spinTick v 0 t1 r d w2 =
             Inr (w2\<lparr>ui := completeDraw v p d (ui w2),
                    intervals := [],
                    confettiTimeouts := Suc (confettiTimeouts w2)\<rparr>)"
    by (auto simp: iv)
  define w3 where "w3 = w2\<lparr>ui := completeDraw v p d (ui w2), intervals := [],
                    confettiTimeouts := Suc (confettiTimeouts w2)\<rparr>"
  have a: "winnersHistory (ui w3) =
             \<lparr>name = name p, number = number p, ident = ident p, date = d\<rparr>
               # winnersHistory (ui w2)"
    by (simp add: w3_def completeDraw_def)
  have b: "intervals w3 = []" "\<not> isDrawing (ui w3)"
    by (simp_all add: w3_def completeDraw_def)
  have c: "\<forall>i now r' d'. spinTick v i now r' d' w3 = Inr w3"
    using b(1) by (simp add: spinTick_no_timer)
  from w2(1) h2 tick p a b c show ?thesis
    unfolding w3_def [symmetric] by blast
qed

theorem C1_draw_adds_one_record_witness:
  "\<exists>w2 w3 p.
      run part_000
        [SetName (js ''Bob''), RemoveClick 7, IntervalTick 0 100 \<lparr>mant = 1, expo = 1\<rparr> []]
        (drawButton 0
           \<lparr>ui = initialState\<lparr>players := [\<lparr>name = js ''Alice'', number = js ''123'', ident = 7\<rparr>]\<rparr>,
            intervals = [], confettiTimeouts = 0\<rparr>) = Inr w2 \<and>
      winnersHistory (ui w2) = [] \<and>
      spinTick part_000 0 4000 \<lparr>mant = 0, expo = 1\<rparr> (js ''noon'') w2 = Inr w3 \<and>
      p \<in> set [\<lparr>name = js ''Alice'', number = js ''123'', ident = 7\<rparr>] \<and>
      winnersHistory (ui w3) =
        \<lparr>name = name p, number = number p, ident = ident p, date = js ''noon''\<rparr>
          # winnersHistory (ui w2) \<and>
      intervals w3 = [] \<and> \<not> isDrawing (ui w3) \<and>
      (\<forall>i now r' d'. spinTick part_000 i now r' d' w3 = Inr w3)"
  using C1_draw_adds_one_record
    [of "\<lparr>ui = initialState\<lparr>players := [\<lparr>name = js ''Alice'', number = js ''123'', ident = 7\<rparr>]\<rparr>,
          intervals = [], confettiTimeouts = 0\<rparr>"
        "[SetName (js ''Bob''), RemoveClick 7, IntervalTick 0 100 \<lparr>mant = 1, expo = 1\<rparr> []]" 0
        "\<lparr>mant = 0, expo = 1\<rparr>" 4000 part_000 "js ''noon''"]
  by (simp add: initialState_def isRandom_def spinDuration_def)



section \<open>Loading from storage\<close>

lemmas json_eval = JSON_parse_def js_def startToken_def isJSONWhiteSpace_def isDigit_def
  isExponentMark_def escapeChar_def hexValue_def codeUnit_def

lemma JSON_parse_empty_array: "JSON_parse (js ''[]'') = Inr (JArray [])"
  by (simp add: json_eval)

lemma JSON_parse_error: "JSON_parse text = Inl err \<Longrightarrow> err = SyntaxError"
  by (auto simp: JSON_parse_def split: option.splits)

lemma orEmptyArray_absent: "item \<in> {None, Some []} \<Longrightarrow> orEmptyArray item = js ''[]''"
  by (auto simp: orEmptyArray_def)

text \<open>What the component itself stores for a pool with one entrant is a JSON text.\<close>

lemma parse_stored_pool:
  \<open>JSON_parse (js ''[{"name":"Alice","number":"123","id":7}]'') =
     Inr (JArray [JObject [(js ''name'', JString (js ''Alice'')),
                           (js ''number'', JString (js ''123'')),
                           (js ''id'', JNumber (js ''7''))]])\<close>
  by (simp add: json_eval)

text \<open>
  Claim C3, as stated: the load never fails, a malformed slot being read as an empty
  collection. Only an absent or empty slot is replaced by \<open>"[]"\<close>; any other string goes
  to \<open>JSON.parse\<close>, and no handler is around the call. With the players slot holding
  \<open>{oops\<close> the load throws a \<open>SyntaxError\<close>.
\<close>

theorem C3_load_counterexample:
  "load \<lparr>lotteryPlayers = Some (js ''{oops''), lotteryWinners = None\<rparr> = Inl SyntaxError"
  by (simp add: load_def orEmptyArray_def json_eval)

text \<open>
  Claim C3, amended. An absent slot, and one holding the empty string, is read as the
  empty array. The load returns exactly when both slots, read so, hold JSON texts, and
  what it returns as the pool and the history are the values of the two texts, their
  shape unchecked. It fails, with the \<open>SyntaxError\<close> of \<open>JSON.parse\<close>, exactly when one of
  the slots holds a malformed value.
\<close>

theorem C3_load:
  "(item \<in> {None, Some []} \<longrightarrow> JSON_parse (orEmptyArray item) = Inr (JArray [])) \<and>
   (load s = Inr (p, h) \<longleftrightarrow>
      JSON_parse (orEmptyArray (lotteryPlayers s)) = Inr p \<and>
      JSON_parse (orEmptyArray (lotteryWinners s)) = Inr h) \<and>
   (load s = Inl SyntaxError \<longleftrightarrow>
      JSON_parse (orEmptyArray (lotteryPlayers s)) = Inl SyntaxError \<or>
      JSON_parse (orEmptyArray (lotteryWinners s)) = Inl SyntaxError)"
proof (intro conjI impI)
  assume "item \<in> {None, Some []}"
  then show "JSON_parse (orEmptyArray item) = Inr (JArray [])"
    by (simp add: orEmptyArray_absent JSON_parse_empty_array)
next
  show "load s = Inr (p, h) \<longleftrightarrow>
      JSON_parse (orEmptyArray (lotteryPlayers s)) = Inr p \<and>
      JSON_parse (orEmptyArray (lotteryWinners s)) = Inr h"
    by (auto simp: load_def split: sum.splits)
next
  show "load s = Inl SyntaxError \<longleftrightarrow>
      JSON_parse (orEmptyArray (lotteryPlayers s)) = Inl SyntaxError \<or>
      JSON_parse (orEmptyArray (lotteryWinners s)) = Inl SyntaxError"
    by (auto simp: load_def split: sum.splits dest: JSON_parse_error)
qed

theorem C3_load_witness:
  \<open>load \<lparr>lotteryPlayers = Some (js ''[{"name":"Alice","number":"123","id":7}]''),
         lotteryWinners = None\<rparr> =
     Inr (JArray [JObject [(js ''name'', JString (js ''Alice'')),
                           (js ''number'', JString (js ''123'')),
                           (js ''id'', JNumber (js ''7''))]], JArray [])\<close>
  using C3_load [of None
      \<open>\<lparr>lotteryPlayers = Some (js ''[{"name":"Alice","number":"123","id":7}]''),
         lotteryWinners = None\<rparr>\<close>
      \<open>JArray [JObject [(js ''name'', JString (js ''Alice'')),
                           (js ''number'', JString (js ''123'')),
                           (js ''id'', JNumber (js ''7''))]]\<close> \<open>JArray []\<close>]
  by (simp add: parse_stored_pool orEmptyArray_def js_not_empty)

end
